theory Spec2Isabelle
  imports Main
begin

section \<open>The calculator automation flow of \<^verbatim>\<open>flows/my_calculator_stream.py\<close>\<close>

text \<open>
  The script drives the macOS Calculator through three external capabilities
  (\<^verbatim>\<open>osascript\<close>, \<^verbatim>\<open>pyautogui\<close>, \<^verbatim>\<open>pyperclip\<close>) and is run by an orchestration
  library. Every call that leaves the script is recorded as an event in a trace, in the
  order in which it is made; whether such a call raises is decided by a \<open>world\<close>, which
  sees the trace up to the call. A Python function becomes a function from the trace
  before the call to its outcome (the exception raised, or the value returned) and the
  trace after it.

  Strings are lists of 8-bit characters, so the expressions considered are the Python
  strings whose code points lie below 256. Exceptions outside the \<^verbatim>\<open>Exception\<close>
  hierarchy (\<^verbatim>\<open>KeyboardInterrupt\<close>, \<^verbatim>\<open>SystemExit\<close>) are not modelled, so
  \<^verbatim>\<open>except Exception\<close> and a bare \<^verbatim>\<open>except\<close> catch the same exceptions here.
\<close>

subsection \<open>Exceptions, events and the world\<close>

datatype exn =
    NameError string
  | ImportError string
  | CalledProcessError string
  | OtherError string

text \<open>\<^verbatim>\<open>str(e)\<close>: the first two messages are the interpreter's, the others are carried.\<close>

fun exn_str :: "exn \<Rightarrow> string" where
  "exn_str (NameError n) = ''name '' @ [CHR 0x27] @ n @ [CHR 0x27] @ '' is not defined''"
| "exn_str (ImportError m) = ''No module named '' @ [CHR 0x27] @ m @ [CHR 0x27]"
| "exn_str (CalledProcessError msg) = msg"
| "exn_str (OtherError msg) = msg"

datatype event =
    Print string
  | Osascript string
  | Sleep nat
  | Press string
  | Hotkey "string list"
  | Paste
  | Log string string
  | TaskAttempt string
  | RetryWait nat

text \<open>
  \<open>Osascript script\<close> is \<^verbatim>\<open>subprocess.run(['osascript', '-e', script], check=True)\<close>,
  \<open>Sleep ms\<close> is \<^verbatim>\<open>time.sleep\<close> with the duration in milliseconds, \<open>Press key\<close> is
  \<^verbatim>\<open>pyautogui.press(key)\<close>, \<open>Hotkey keys\<close> is \<^verbatim>\<open>pyautogui.hotkey(*keys)\<close>, \<open>Paste\<close> is
  \<^verbatim>\<open>pyperclip.paste()\<close>, \<open>Log level message\<close> is a call of the run logger. The last two
  events belong to the orchestration layer: the start of one attempt of a task run, and
  the wait of \<^verbatim>\<open>retry_delay_seconds\<close> before the next attempt.
\<close>

record world =
  osascript_fails :: "string \<Rightarrow> event list \<Rightarrow> exn option"
  press_fails :: "string \<Rightarrow> event list \<Rightarrow> exn option"
  hotkey_fails :: "string list \<Rightarrow> event list \<Rightarrow> exn option"
  pyperclip_installed :: bool
  clipboard :: "event list \<Rightarrow> exn + string"

type_synonym 'a io = "event list \<Rightarrow> (exn + 'a) \<times> event list"

definition return_io :: "'a \<Rightarrow> 'a io" where
  "return_io x = (\<lambda>s. (Inr x, s))"

definition raise_io :: "exn \<Rightarrow> 'a io" where
  "raise_io e = (\<lambda>s. (Inl e, s))"

definition bind_io :: "'a io \<Rightarrow> ('a \<Rightarrow> 'b io) \<Rightarrow> 'b io" where
  "bind_io m f = (\<lambda>s. case m s of (Inl e, s1) \<Rightarrow> (Inl e, s1) | (Inr x, s1) \<Rightarrow> f x s1)"

definition emit :: "event \<Rightarrow> unit io" where
  "emit ev = (\<lambda>s. (Inr (), s @ [ev]))"

text \<open>An external call that may raise: the call is recorded whether it raises or not.\<close>

definition external :: "event \<Rightarrow> (event list \<Rightarrow> exn option) \<Rightarrow> unit io" where
  "external ev fails =
     (\<lambda>s. case fails s of Some e \<Rightarrow> (Inl e, s @ [ev]) | None \<Rightarrow> (Inr (), s @ [ev]))"

text \<open>
  \<^verbatim>\<open>try: m except <caught> as e: handler(e)\<close> and \<^verbatim>\<open>try: m finally: fin\<close>. An
  exception raised by the \<^verbatim>\<open>finally\<close> block replaces the outcome of the body.
\<close>

definition try_except :: "'a io \<Rightarrow> (exn \<Rightarrow> bool) \<Rightarrow> (exn \<Rightarrow> 'a io) \<Rightarrow> 'a io" where
  "try_except m caught handler =
     (\<lambda>s. case m s of
             (Inl e, s1) \<Rightarrow> if caught e then handler e s1 else (Inl e, s1)
           | (Inr x, s1) \<Rightarrow> (Inr x, s1))"

definition try_finally :: "'a io \<Rightarrow> unit io \<Rightarrow> 'a io" where
  "try_finally m fin =
     (\<lambda>s. case m s of
             (r, s1) \<Rightarrow> (case fin s1 of (Inl e, s2) \<Rightarrow> (Inl e, s2) | (Inr u, s2) \<Rightarrow> (r, s2)))"

definition is_Exception :: "exn \<Rightarrow> bool" where
  "is_Exception e = True"

fun is_ImportError :: "exn \<Rightarrow> bool" where
  "is_ImportError (ImportError m) = True"
| "is_ImportError e = False"

subsection \<open>Name resolution\<close>

text \<open>
  The names bound at module level: the five imported ones and the six functions the
  module defines. A name that a function body reads without assigning it is looked up
  here; the two names so looked up (\<^verbatim>\<open>get_run_logger\<close>, \<^verbatim>\<open>total_count\<close>) are not
  names of builtins either, so a failed lookup raises \<^verbatim>\<open>NameError\<close>.
\<close>

datatype pyobj = ModuleObject string

definition module_names :: "string list" where
  "module_names =
     [''time'', ''subprocess'', ''pyautogui'', ''flow'', ''task'',
      ''open_calculator'', ''close_calculator'', ''hands_press_key'',
      ''perform_calculation_rpa'', ''perform_calculation'',
      ''calculator_automation_stream'']"

definition lookup_name :: "string \<Rightarrow> exn + pyobj" where
  "lookup_name n = (if n \<in> set module_names then Inr (ModuleObject n) else Inl (NameError n))"

subsection \<open>The App Controller (lines 8 to 18)\<close>

definition activate_script :: string where
  "activate_script = ''tell application \"Calculator\" to activate''"

definition quit_script :: string where
  "quit_script = ''tell application \"Calculator\" to quit''"

definition open_calculator :: "world \<Rightarrow> unit io" where
  "open_calculator env =
     bind_io (emit (Print ''Opening macOS Calculator...'')) (\<lambda>_.
     bind_io (external (Osascript activate_script) (osascript_fails env activate_script)) (\<lambda>_.
     emit (Sleep 2000)))"

definition close_calculator :: "world \<Rightarrow> unit io" where
  "close_calculator env =
     bind_io (emit (Print ''Closing macOS Calculator...'')) (\<lambda>_.
     external (Osascript quit_script) (osascript_fails env quit_script))"

subsection \<open>Key presses (lines 20 to 24)\<close>

definition pyautogui_press :: "world \<Rightarrow> string \<Rightarrow> unit io" where
  "pyautogui_press env key = external (Press key) (press_fails env key)"

definition hands_press_key :: "world \<Rightarrow> string \<Rightarrow> unit io" where
  "hands_press_key env key = bind_io (pyautogui_press env key) (\<lambda>_. emit (Sleep 100))"

subsection \<open>The Input Driver (lines 39 to 46)\<close>

text \<open>
  \<^verbatim>\<open>str.isdigit\<close> on the code points below 256: the ten ASCII digits and the
  superscripts two, three and one.
\<close>

definition isdigit :: "char \<Rightarrow> bool" where
  "isdigit c =
     ((of_char c :: nat) \<in> {48 ..< 58} \<or> c = CHR 0xB2 \<or> c = CHR 0xB3 \<or> c = CHR 0xB9)"

definition key_mapping :: "char \<rightharpoonup> string" where
  "key_mapping =
     map_of [(CHR ''+'', ''+''), (CHR ''-'', ''-''), (CHR ''*'', ''*''), (CHR ''/'', ''/'')]"

text \<open>The body of the loop without its closing \<^verbatim>\<open>time.sleep(0.1)\<close>.\<close>

definition press_char :: "world \<Rightarrow> char \<Rightarrow> unit io" where
  "press_char env c =
     (if isdigit c then pyautogui_press env [c]
      else case key_mapping c of
             Some key \<Rightarrow> pyautogui_press env key
           | None \<Rightarrow> return_io ())"

fun input_driver :: "world \<Rightarrow> string \<Rightarrow> unit io" where
  "input_driver env [] s = (Inr (), s)"
| "input_driver env (c # cs) s =
     (case press_char env c s of
        (Inl e, s1) \<Rightarrow> (Inl e, s1)
      | (Inr u, s1) \<Rightarrow> input_driver env cs (s1 @ [Sleep 100]))"

subsection \<open>The Result Reader (lines 56 to 67)\<close>

text \<open>
  \<^verbatim>\<open>str.isspace\<close> on the code points below 256, \<^verbatim>\<open>str.strip()\<close> and
  \<^verbatim>\<open>str.replace(',', '')\<close>.
\<close>

definition isspace :: "char \<Rightarrow> bool" where
  "isspace c =
     ((of_char c :: nat) \<in> {9 ..< 14} \<or> (of_char c :: nat) \<in> {28 ..< 33}
      \<or> c = CHR 0x85 \<or> c = CHR 0xA0)"

definition strip :: "string \<Rightarrow> string" where
  "strip text = rev (dropWhile isspace (rev (dropWhile isspace text)))"

definition remove_commas :: "string \<Rightarrow> string" where
  "remove_commas text = filter (\<lambda>c. c \<noteq> CHR '','') text"

text \<open>The body of the \<^verbatim>\<open>try\<close> (lines 61 to 64): the import, the paste and the clean-up.\<close>

definition read_clipboard :: "world \<Rightarrow> string io" where
  "read_clipboard env =
     (if pyperclip_installed env
      then bind_io (\<lambda>s. (clipboard env s, s @ [Paste])) (\<lambda>result.
           return_io (remove_commas (strip result)))
      else raise_io (ImportError ''pyperclip''))"

definition result_reader :: "world \<Rightarrow> string io" where
  "result_reader env =
     bind_io (external (Hotkey [''command'', ''c'']) (hotkey_fails env [''command'', ''c''])) (\<lambda>_.
     bind_io (emit (Sleep 500)) (\<lambda>_.
     try_except (read_clipboard env) is_ImportError (\<lambda>e.
       bind_io (emit (Print ''Install 'pyperclip' to read the clipboard result.'')) (\<lambda>_.
       return_io ''Result_Read_Error''))))"

subsection \<open>\<^verbatim>\<open>perform_calculation_rpa\<close> (lines 26 to 67)\<close>

definition perform_calculation_rpa :: "world \<Rightarrow> string \<Rightarrow> string io" where
  "perform_calculation_rpa env expression =
     bind_io (hands_press_key env ''c'') (\<lambda>_.
     bind_io (input_driver env expression) (\<lambda>_.
     bind_io (pyautogui_press env ''='') (\<lambda>_.
     bind_io (emit (Sleep 1000)) (\<lambda>_.
     result_reader env))))"

subsection \<open>The Calculation Task (lines 73 to 99)\<close>

text \<open>
  A Python dictionary whose keys and values are strings, in insertion order; this is a
  Calculation Outcome.
\<close>

type_synonym outcome = "(string \<times> string) list"

definition io_of :: "exn + 'a \<Rightarrow> 'a io" where
  "io_of r = (\<lambda>s. (r, s))"

text \<open>
  The body of the decorated function, that is one attempt of the task. Its first
  statement calls \<^verbatim>\<open>get_run_logger\<close>, a name the module neither imports nor defines.
\<close>

definition perform_calculation :: "world \<Rightarrow> string \<Rightarrow> outcome io" where
  "perform_calculation env expression =
     bind_io (io_of (lookup_name ''get_run_logger'')) (\<lambda>logger.
     bind_io (emit (Log ''info'' (''Attempting calculation: '' @ expression))) (\<lambda>_.
     try_except
       (bind_io (perform_calculation_rpa env expression) (\<lambda>result.
        bind_io (hands_press_key env ''c'') (\<lambda>_.
        bind_io (emit (Sleep 500)) (\<lambda>_.
        bind_io (emit (Log ''info''
                   (''Successfully calculated '' @ expression @ '' = '' @ result))) (\<lambda>_.
        return_io
          [(''expression'', expression), (''status'', ''success''), (''result'', result)])))))
       is_Exception
       (\<lambda>e. bind_io (emit (Log ''error''
                     (''Failed calculation '' @ expression @ '': '' @ exn_str e))) (\<lambda>_.
            raise_io e))))"

text \<open>The arguments of the \<^verbatim>\<open>@task\<close> decorator (line 73).\<close>

definition task_name :: string where
  "task_name = ''perform_single_calculation''"

definition task_retries :: nat where
  "task_retries = 3"

definition task_retry_delay_seconds :: nat where
  "task_retry_delay_seconds = 5"

subsection \<open>The orchestration layer\<close>

text \<open>
  Modelled from the spec: the orchestration library (\<^verbatim>\<open>prefect\<close>) is not part of the
  source. The spec's words are that an exception of the task ``propagates to the
  orchestration layer, which is configured to retry the task a fixed number of times
  with a fixed delay between attempts; only after retries are exhausted does the task
  report terminal failure upstream''. \<open>run_with_retries name retries delay body\<close> makes
  one attempt and, while the attempt raises and retries are left, waits and makes
  another; the outcome of the last attempt is the outcome of the task run.
\<close>

fun run_with_retries :: "string \<Rightarrow> nat \<Rightarrow> nat \<Rightarrow> 'a io \<Rightarrow> 'a io" where
  "run_with_retries name 0 delay body s = body (s @ [TaskAttempt name])"
| "run_with_retries name (Suc n) delay body s =
     (case body (s @ [TaskAttempt name]) of
        (Inl e, s1) \<Rightarrow> run_with_retries name n delay body (s1 @ [RetryWait delay])
      | (Inr v, s1) \<Rightarrow> (Inr v, s1))"

definition perform_calculation_task :: "world \<Rightarrow> string \<Rightarrow> outcome io" where
  "perform_calculation_task env expression =
     run_with_retries task_name task_retries task_retry_delay_seconds
       (perform_calculation env expression)"

text \<open>
  Modelled from the spec: \<^verbatim>\<open>perform_calculation.map(calculations)\<close> ``submits every
  expression as an independent Calculation Task instance'' and ``the returned result
  list preserves submission order via per-future association''. A future carries the
  keyword arguments of its task run and the final outcome of the run, which
  \<^verbatim>\<open>future.result()\<close> returns or raises. The task runs are executed one after the other
  in submission order, which is one of the schedules the orchestration layer may choose.
\<close>

record future =
  kwargs :: "(string \<times> string) list"
  final :: "exn + outcome"

fun perform_calculation_map :: "world \<Rightarrow> string list \<Rightarrow> event list \<Rightarrow> future list \<times> event list"
  where
  "perform_calculation_map env [] s = ([], s)"
| "perform_calculation_map env (x # xs) s =
     (case perform_calculation_task env x s of
        (r, s1) \<Rightarrow>
          (case perform_calculation_map env xs s1 of
             (futures, s2) \<Rightarrow> (\<lparr>kwargs = [(''expression'', x)], final = r\<rparr> # futures, s2)))"

subsection \<open>The Calculation Flow (lines 105 to 149)\<close>

text \<open>
  The loop over the futures (lines 124 to 131); the accumulator \<open>rs\<close> is the list
  \<^verbatim>\<open>results\<close>, to which each round appends one entry.
\<close>

fun collect_results :: "future list \<Rightarrow> outcome list \<Rightarrow> outcome list" where
  "collect_results [] rs = rs"
| "collect_results (f # fs) rs =
     (case final f of
        Inr v \<Rightarrow> collect_results fs (rs @ [v])
      | Inl e \<Rightarrow>
          (let calc_expression =
                 (case map_of (kwargs f) ''expression'' of
                    Some x \<Rightarrow> x
                  | None \<Rightarrow> ''Unknown'')
           in collect_results fs
                (rs @
                 [[(''expression'', calc_expression), (''status'', ''failed''),
                   (''error'', exn_str e)]])))"

record flow_result =
  status :: string
  total_calculations :: pyobj
  results :: "outcome list"

text \<open>The \<^verbatim>\<open>return\<close> statement (line 133), which reads the name \<^verbatim>\<open>total_count\<close>.\<close>

definition return_statement :: "outcome list \<Rightarrow> exn + flow_result" where
  "return_statement rs =
     (case lookup_name ''total_count'' of
        Inl e \<Rightarrow> Inl e
      | Inr total_count \<Rightarrow>
          Inr \<lparr>status = ''completed'', total_calculations = total_count, results = rs\<rparr>)"

text \<open>The body of the outer \<^verbatim>\<open>try\<close> (lines 118 to 133).\<close>

definition try_body :: "world \<Rightarrow> string list \<Rightarrow> flow_result io" where
  "try_body env calculations =
     (\<lambda>s. case perform_calculation_map env calculations s of
             (result_futures, s1) \<Rightarrow>
               (return_statement (collect_results result_futures []), s1))"

text \<open>The handler of the outer \<^verbatim>\<open>try\<close> (lines 135 to 145).\<close>

definition except_handler :: "world \<Rightarrow> exn \<Rightarrow> flow_result io" where
  "except_handler env e =
     bind_io (emit (Print (''Automation failed: '' @ exn_str e))) (\<lambda>_.
     bind_io (try_except (close_calculator env) (\<lambda>_. True) (\<lambda>_. return_io ())) (\<lambda>_.
     raise_io e))"

definition calculator_automation_stream :: "world \<Rightarrow> string list \<Rightarrow> flow_result io" where
  "calculator_automation_stream env calculations =
     bind_io (open_calculator env) (\<lambda>_.
     try_finally
       (try_except (try_body env calculations) is_Exception (except_handler env))
       (close_calculator env))"

subsection \<open>Observations on a trace\<close>

text \<open>The number of calls of \<^verbatim>\<open>close_calculator\<close>, the keys pressed, the retry protocol.\<close>

definition close_calls :: "event list \<Rightarrow> nat" where
  "close_calls t = length (filter (\<lambda>ev. ev = Osascript quit_script) t)"

fun key_events :: "event \<Rightarrow> string list" where
  "key_events (Press key) = [key]"
| "key_events ev = []"

definition keys_pressed :: "event list \<Rightarrow> string list" where
  "keys_pressed t = concat (map key_events t)"

fun is_retry_event :: "event \<Rightarrow> bool" where
  "is_retry_event (TaskAttempt name) = True"
| "is_retry_event (RetryWait delay) = True"
| "is_retry_event ev = False"

definition retry_events :: "event list \<Rightarrow> event list" where
  "retry_events t = filter is_retry_event t"

text \<open>
  The events of one call of \<^verbatim>\<open>open_calculator\<close> up to its \<^verbatim>\<open>osascript\<close> call, of one call
  of \<^verbatim>\<open>close_calculator\<close>, of the copy shortcut with its wait, of one task run all of
  whose attempts raise, and of the outer \<^verbatim>\<open>try\<close> statement without its \<^verbatim>\<open>finally\<close> block
  when the \<^verbatim>\<open>return\<close> statement raises.
\<close>

definition open_events :: "event list" where
  "open_events = [Print ''Opening macOS Calculator...'', Osascript activate_script]"

definition close_events :: "event list" where
  "close_events = [Print ''Closing macOS Calculator...'', Osascript quit_script]"

definition copy_events :: "event list" where
  "copy_events = [Hotkey [''command'', ''c''], Sleep 500]"

definition retry_protocol :: "event list" where
  "retry_protocol =
     [TaskAttempt task_name, RetryWait 5, TaskAttempt task_name, RetryWait 5,
      TaskAttempt task_name, RetryWait 5, TaskAttempt task_name]"

definition failed_run :: "string list \<Rightarrow> event list" where
  "failed_run calculations =
     concat (map (\<lambda>x. retry_protocol) calculations) @
     [Print (''Automation failed: '' @ exn_str (NameError ''total_count''))] @ close_events"

text \<open>The characters for which the Input Driver presses a key.\<close>

definition accepted :: "char \<Rightarrow> bool" where
  "accepted c = (isdigit c \<or> c \<in> set ''+-*/'')"

subsection \<open>Three worlds\<close>

text \<open>
  A world in which no call raises and the clipboard holds \<open>text\<close>; the same world without
  \<^verbatim>\<open>pyperclip\<close>; a world in which \<^verbatim>\<open>osascript\<close> exits with a non-zero status for the
  scripts in \<open>bad\<close>.
\<close>

definition working_world :: "string \<Rightarrow> world" where
  "working_world text =
     \<lparr>osascript_fails = (\<lambda>script s. None), press_fails = (\<lambda>key s. None),
      hotkey_fails = (\<lambda>keys s. None), pyperclip_installed = True,
      clipboard = (\<lambda>s. Inr text)\<rparr>"

definition no_pyperclip_world :: world where
  "no_pyperclip_world = (working_world '''')\<lparr>pyperclip_installed := False\<rparr>"

definition osascript_failing_world :: "string list \<Rightarrow> world" where
  "osascript_failing_world bad =
     (working_world '''')
       \<lparr>osascript_fails :=
          (\<lambda>script s. if script \<in> set bad
                      then Some (CalledProcessError ''osascript returned non-zero exit status 1'')
                      else None)\<rparr>"

section \<open>Properties\<close>

subsection \<open>The two unresolved names\<close>

lemma lookup_get_run_logger: "lookup_name ''get_run_logger'' = Inl (NameError ''get_run_logger'')"
  by (simp add: lookup_name_def module_names_def)

lemma lookup_total_count: "lookup_name ''total_count'' = Inl (NameError ''total_count'')"
  by (simp add: lookup_name_def module_names_def)

lemma perform_calculation_unresolved:
  "perform_calculation env expression s = (Inl (NameError ''get_run_logger''), s)"
  by (simp add: perform_calculation_def bind_io_def io_of_def lookup_get_run_logger)

lemma perform_calculation_task_fails:
  "perform_calculation_task env expression s =
     (Inl (NameError ''get_run_logger''), s @ retry_protocol)"
  by (simp add: perform_calculation_task_def task_retries_def task_retry_delay_seconds_def
      numeral_3_eq_3 perform_calculation_unresolved retry_protocol_def)

lemma perform_calculation_map_fails:
  "perform_calculation_map env xs s =
     (map (\<lambda>x. \<lparr>kwargs = [(''expression'', x)], final = Inl (NameError ''get_run_logger'')\<rparr>) xs,
      s @ concat (map (\<lambda>x. retry_protocol) xs))"
  by (induction xs arbitrary: s) (simp_all add: perform_calculation_task_fails)

lemma return_statement_raises: "return_statement rs = Inl (NameError ''total_count'')"
  by (simp add: return_statement_def lookup_total_count)

lemma try_body_raises:
  "try_body env calculations s =
     (Inl (NameError ''total_count''), s @ concat (map (\<lambda>x. retry_protocol) calculations))"
  by (simp add: try_body_def perform_calculation_map_fails return_statement_raises)

subsection \<open>The flow, stage by stage\<close>

lemma open_calculator_eq:
  "open_calculator env s =
     (case osascript_fails env activate_script (s @ [Print ''Opening macOS Calculator...'']) of
        Some e \<Rightarrow> (Inl e, s @ open_events)
      | None \<Rightarrow> (Inr (), s @ open_events @ [Sleep 2000]))"
  by (simp add: open_calculator_def bind_io_def emit_def external_def open_events_def
      split: option.split)

lemma close_calculator_eq:
  "close_calculator env s =
     (case osascript_fails env quit_script (s @ [Print ''Closing macOS Calculator...'']) of
        Some e \<Rightarrow> (Inl e, s @ close_events)
      | None \<Rightarrow> (Inr (), s @ close_events))"
  by (simp add: close_calculator_def bind_io_def emit_def external_def close_events_def
      split: option.split)

lemma except_handler_eq:
  "except_handler env e s =
     (Inl e, s @ [Print (''Automation failed: '' @ exn_str e)] @ close_events)"
  by (simp add: except_handler_def bind_io_def emit_def try_except_def return_io_def
      raise_io_def close_calculator_eq split: option.split)

lemma guarded_body_eq:
  "try_except (try_body env calculations) is_Exception (except_handler env) s =
     (Inl (NameError ''total_count''), s @ failed_run calculations)"
  by (simp add: try_except_def try_body_raises is_Exception_def except_handler_eq
      failed_run_def)

lemma flow_after_open:
  "try_finally
     (try_except (try_body env calculations) is_Exception (except_handler env))
     (close_calculator env) s =
   (case fst (close_calculator env (s @ failed_run calculations)) of
      Inl e \<Rightarrow> Inl e
    | Inr u \<Rightarrow> Inl (NameError ''total_count''),
    s @ failed_run calculations @ close_events)"
  by (simp add: try_finally_def guarded_body_eq close_calculator_eq
      split: option.split)

lemma flow_eq:
  "calculator_automation_stream env calculations s =
     (case open_calculator env s of
        (Inl e, s1) \<Rightarrow> (Inl e, s1)
      | (Inr u, s1) \<Rightarrow>
          (case fst (close_calculator env (s1 @ failed_run calculations)) of
             Inl e \<Rightarrow> Inl e
           | Inr u \<Rightarrow> Inl (NameError ''total_count''),
           s1 @ failed_run calculations @ close_events))"
  by (simp add: calculator_automation_stream_def bind_io_def flow_after_open
      split: prod.split sum.split)

subsection \<open>Counting the calls of \<^verbatim>\<open>close_calculator\<close>\<close>

lemma close_calls_Cons:
  "close_calls (ev # t) = (if ev = Osascript quit_script then 1 else 0) + close_calls t"
  by (simp add: close_calls_def)

lemma close_calls_append: "close_calls (t @ u) = close_calls t + close_calls u"
  by (simp add: close_calls_def)

lemma close_calls_close_events: "close_calls close_events = 1"
  by (simp add: close_calls_def close_events_def)

lemma close_calls_open_events: "close_calls open_events = 0"
  by (simp add: close_calls_def open_events_def activate_script_def quit_script_def)

lemma close_calls_protocols: "close_calls (concat (map (\<lambda>x. retry_protocol) xs)) = 0"
  by (induction xs) (simp_all add: close_calls_def retry_protocol_def)

lemma close_calls_failed_run: "close_calls (failed_run calculations) = 1"
  by (simp add: failed_run_def close_calls_append close_calls_protocols
      close_calls_close_events close_calls_Cons)

subsection \<open>The worlds\<close>

lemma working_world_simps:
  "osascript_fails (working_world text) script s = None"
  "press_fails (working_world text) key s = None"
  "hotkey_fails (working_world text) keys s = None"
  "pyperclip_installed (working_world text)"
  "clipboard (working_world text) s = Inr text"
  by (simp_all add: working_world_def)

lemma osascript_failing_world_simps:
  "osascript_fails (osascript_failing_world bad) script s =
     (if script \<in> set bad
      then Some (CalledProcessError ''osascript returned non-zero exit status 1'')
      else None)"
  by (simp add: osascript_failing_world_def)

subsection \<open>The Input Driver\<close>

lemma key_mapping_eq: "key_mapping c = (if c \<in> set ''+-*/'' then Some [c] else None)"
  by (simp add: key_mapping_def)

lemma press_char_eq:
  "press_char env c s =
     (if accepted c
      then (case press_fails env [c] s of
              Some e \<Rightarrow> (Inl e, s @ [Press [c]])
            | None \<Rightarrow> (Inr (), s @ [Press [c]]))
      else (Inr (), s))"
  by (simp add: press_char_def accepted_def key_mapping_eq pyautogui_press_def external_def
      return_io_def split: option.split)

lemma keys_pressed_simps:
  "keys_pressed [] = []"
  "keys_pressed (Press key # t) = key # keys_pressed t"
  "keys_pressed (Sleep ms # t) = keys_pressed t"
  "keys_pressed (t @ u) = keys_pressed t @ keys_pressed u"
  by (simp_all add: keys_pressed_def)

lemma input_driver_append:
  "input_driver env (xs @ ys) s =
     (case input_driver env xs s of
        (Inl e, s1) \<Rightarrow> (Inl e, s1)
      | (Inr u, s1) \<Rightarrow> input_driver env ys s1)"
  by (induction xs arbitrary: s) (simp_all split: prod.split sum.split)

text \<open>
  When the driver returns, the keys it has pressed are the accepted characters of the
  expression, one key each, in their order.
\<close>

lemma input_driver_returns:
  "input_driver env expression s = (Inr u, s') \<Longrightarrow>
     \<exists>t. s' = s @ t \<and> keys_pressed t = map (\<lambda>c. [c]) (filter accepted expression)"
proof (induction expression arbitrary: s)
  case Nil
  then show ?case by (simp add: keys_pressed_simps)
next
  case (Cons c cs)
  show ?case
  proof (cases "accepted c")
    case True
    with Cons.prems have run: "input_driver env cs (s @ [Press [c], Sleep 100]) = (Inr u, s')"
      by (simp add: press_char_eq split: option.splits)
    from Cons.IH [OF run] obtain t where
      "s' = (s @ [Press [c], Sleep 100]) @ t"
      "keys_pressed t = map (\<lambda>c. [c]) (filter accepted cs)"
      by blast
    then have "s' = s @ ([Press [c], Sleep 100] @ t) \<and>
        keys_pressed ([Press [c], Sleep 100] @ t) = map (\<lambda>c. [c]) (filter accepted (c # cs))"
      using True by (simp add: keys_pressed_simps)
    then show ?thesis by blast
  next
    case False
    with Cons.prems have run: "input_driver env cs (s @ [Sleep 100]) = (Inr u, s')"
      by (simp add: press_char_eq)
    from Cons.IH [OF run] obtain t where
      "s' = (s @ [Sleep 100]) @ t"
      "keys_pressed t = map (\<lambda>c. [c]) (filter accepted cs)"
      by blast
    then have "s' = s @ ([Sleep 100] @ t) \<and>
        keys_pressed ([Sleep 100] @ t) = map (\<lambda>c. [c]) (filter accepted (c # cs))"
      using False by (simp add: keys_pressed_simps)
    then show ?thesis by blast
  qed
qed

lemma input_driver_completes:
  "\<forall>key t. press_fails env key t = None \<Longrightarrow> fst (input_driver env expression s) = Inr ()"
  by (induction expression arbitrary: s) (simp_all add: press_char_eq)

subsection \<open>Stripping and removing commas\<close>

lemma remove_commas_no_comma: "CHR '','' \<notin> set (remove_commas text)"
  by (simp add: remove_commas_def)

text \<open>
  \<open>strip\<close> cuts a run of whitespace off each end of the text, and what is left neither
  starts nor ends with whitespace.
\<close>

lemma strip_surrounding:
  "\<exists>before after. text = before @ strip text @ after \<and>
     list_all isspace before \<and> list_all isspace after \<and>
     (strip text = [] \<or> \<not> isspace (hd (strip text)) \<and> \<not> isspace (last (strip text)))"
proof -
  let ?m = "dropWhile isspace text"
  let ?r = "dropWhile isspace (rev ?m)"
  have a: "text = takeWhile isspace text @ ?m"
    by simp
  have b: "?m = rev ?r @ rev (takeWhile isspace (rev ?m))"
    by (metis rev_append rev_rev_ident takeWhile_dropWhile_id)
  have c: "strip text = rev ?r"
    by (simp add: strip_def)
  have d: "list_all isspace (takeWhile isspace text)"
    by (simp add: list_all_iff) (meson set_takeWhileD)
  have e: "list_all isspace (rev (takeWhile isspace (rev ?m)))"
    by (simp add: list_all_iff) (meson set_takeWhileD)
  have f: "?r \<noteq> [] \<Longrightarrow> \<not> isspace (hd ?r)"
    by (rule hd_dropWhile)
  have g: "?r \<noteq> [] \<Longrightarrow> \<not> isspace (hd (rev ?r))"
  proof -
    assume ne: "?r \<noteq> []"
    then have "?m \<noteq> []"
      by (metis dropWhile.simps(1) rev.simps(1))
    then have "\<not> isspace (hd ?m)" by (rule hd_dropWhile)
    moreover from ne have "hd (rev ?r) = hd ?m"
      using b by (metis hd_append2 rev_is_Nil_conv)
    ultimately show ?thesis by simp
  qed
  have h: "?r \<noteq> [] \<Longrightarrow> \<not> isspace (last (rev ?r))"
    using f by (simp add: last_rev)
  have "text = takeWhile isspace text @ strip text @ rev (takeWhile isspace (rev ?m))"
    using a b c by metis
  with d e g h c show ?thesis
    by (metis rev_is_Nil_conv)
qed

subsection \<open>Retries and collection\<close>

lemma run_with_retries_exhausted:
  assumes "\<forall>s. \<exists>e t. body s = (Inl e, s @ t) \<and> retry_events t = []"
  shows "\<exists>e t. run_with_retries name n delay body s = (Inl e, s @ t) \<and>
           retry_events t =
             TaskAttempt name # concat (replicate n [RetryWait delay, TaskAttempt name])"
proof (induction n arbitrary: s)
  case 0
  from assms obtain e t where
    "body (s @ [TaskAttempt name]) = (Inl e, (s @ [TaskAttempt name]) @ t)"
    "retry_events t = []"
    by blast
  then have "run_with_retries name 0 delay body s = (Inl e, s @ (TaskAttempt name # t)) \<and>
      retry_events (TaskAttempt name # t) = [TaskAttempt name]"
    by (simp add: retry_events_def)
  then show ?case by auto
next
  case (Suc n)
  from assms obtain e t where first:
    "body (s @ [TaskAttempt name]) = (Inl e, (s @ [TaskAttempt name]) @ t)"
    "retry_events t = []"
    by blast
  let ?s1 = "(s @ [TaskAttempt name]) @ t @ [RetryWait delay]"
  from Suc.IH [of ?s1] obtain e' t' where rest:
    "run_with_retries name n delay body ?s1 = (Inl e', ?s1 @ t')"
    "retry_events t' =
       TaskAttempt name # concat (replicate n [RetryWait delay, TaskAttempt name])"
    by blast
  let ?t = "TaskAttempt name # t @ RetryWait delay # t'"
  from first rest have "run_with_retries name (Suc n) delay body s = (Inl e', s @ ?t)"
    by simp
  moreover from first rest have "retry_events ?t =
      TaskAttempt name # concat (replicate (Suc n) [RetryWait delay, TaskAttempt name])"
    by (simp add: retry_events_def)
  ultimately show ?case by blast
qed

lemma collect_results_failed:
  "collect_results
     (map (\<lambda>x. \<lparr>kwargs = [(''expression'', x)], final = Inl e\<rparr>) xs) rs =
   rs @ map (\<lambda>x. [(''expression'', x), (''status'', ''failed''), (''error'', exn_str e)]) xs"
  by (induction xs arbitrary: rs) simp_all

lemma collect_results_length: "length (collect_results fs rs) = length rs + length fs"
  by (induction fs arbitrary: rs) (simp_all add: Let_def split: sum.split)

section \<open>The claims\<close>

text \<open>
  Claim C1, as amended. The claim is that \<^verbatim>\<open>close_calculator\<close> is called exactly once in
  every flow run, also when \<^verbatim>\<open>open_calculator\<close> raises. The call of \<^verbatim>\<open>open_calculator\<close>
  stands before the \<^verbatim>\<open>try\<close> statement, so what holds is this: when \<^verbatim>\<open>open_calculator\<close>
  raises, the flow run ends with that exception and \<^verbatim>\<open>close_calculator\<close> is not called;
  when \<^verbatim>\<open>open_calculator\<close> returns, \<^verbatim>\<open>close_calculator\<close> is called at least once, and the
  call made by the \<^verbatim>\<open>finally\<close> block is the last action of the run.
\<close>

theorem close_calculator_calls:
  "(\<forall>e. fst (open_calculator env s) = Inl e \<longrightarrow>
      (\<exists>t. calculator_automation_stream env calculations s = (Inl e, s @ t) \<and>
           close_calls t = 0)) \<and>
   (fst (open_calculator env s) = Inr () \<longrightarrow>
      (\<exists>t. snd (calculator_automation_stream env calculations s) = s @ t \<and>
           1 \<le> close_calls t \<and> last t = Osascript quit_script))"
proof (intro conjI allI impI)
  fix e
  assume "fst (open_calculator env s) = Inl e"
  then have "calculator_automation_stream env calculations s = (Inl e, s @ open_events)"
    by (auto simp add: flow_eq open_calculator_eq split: option.splits)
  then show "\<exists>t. calculator_automation_stream env calculations s = (Inl e, s @ t) \<and>
                close_calls t = 0"
    using close_calls_open_events by blast
next
  let ?t = "open_events @ [Sleep 2000] @ failed_run calculations @ close_events"
  assume "fst (open_calculator env s) = Inr ()"
  then have "snd (calculator_automation_stream env calculations s) = s @ ?t"
    by (auto simp add: flow_eq open_calculator_eq split: option.splits)
  moreover have "1 \<le> close_calls ?t"
    by (simp add: close_calls_append close_calls_close_events close_calls_Cons)
  moreover have "last ?t = Osascript quit_script"
    by (simp add: close_events_def)
  ultimately show "\<exists>t. snd (calculator_automation_stream env calculations s) = s @ t \<and>
                1 \<le> close_calls t \<and> last t = Osascript quit_script"
    by blast
qed

text \<open>
  The theorem at two runs on the input \<^verbatim>\<open>["1+1"]\<close>: one in which the activation of the
  Calculator fails, one in which no external call fails.
\<close>

theorem close_calculator_calls_witness:
  "(\<exists>t. calculator_automation_stream (osascript_failing_world [activate_script]) [''1+1''] [] =
          (Inl (CalledProcessError ''osascript returned non-zero exit status 1''), t) \<and>
        close_calls t = 0) \<and>
   (\<exists>t. snd (calculator_automation_stream (working_world ''2'') [''1+1''] []) = t \<and>
        1 \<le> close_calls t \<and> last t = Osascript quit_script)"
  using close_calculator_calls [of "osascript_failing_world [activate_script]" "[]" "[''1+1'']"]
    close_calculator_calls [of "working_world ''2''" "[]" "[''1+1'']"]
  by (simp add: open_calculator_eq osascript_failing_world_simps working_world_simps)

text \<open>
  In the same two runs \<^verbatim>\<open>close_calculator\<close> is called not once, but never and twice.
\<close>

theorem close_calculator_calls_counterexample:
  "close_calls (snd (calculator_automation_stream
                       (osascript_failing_world [activate_script]) [''1+1''] [])) = 0 \<and>
   close_calls (snd (calculator_automation_stream (working_world ''2'') [''1+1''] [])) = 2"
  by (simp add: flow_eq open_calculator_eq osascript_failing_world_simps working_world_simps
      close_calls_append close_calls_open_events close_calls_failed_run
      close_calls_close_events close_calls_Cons)

text \<open>
  Claim C2: when opening, dispatching and collecting complete, the flow returns the
  dictionary with the status \<^verbatim>\<open>completed\<close>, the number of expressions and the results. The
  \<^verbatim>\<open>return\<close> statement reads \<^verbatim>\<open>total_count\<close>, which nothing binds: in a world where no
  external call fails, the flow raises \<^verbatim>\<open>NameError\<close> on the empty list and on
  \<^verbatim>\<open>["1+1", "2*3"]\<close>.
\<close>

theorem flow_return_raises:
  "fst (calculator_automation_stream (working_world ''2'') [] []) =
     Inl (NameError ''total_count'') \<and>
   fst (calculator_automation_stream (working_world ''2'') [''1+1'', ''2*3''] []) =
     Inl (NameError ''total_count'')"
  by (simp add: flow_eq open_calculator_eq close_calculator_eq working_world_simps)

text \<open>
  Claim C3: one call of \<^verbatim>\<open>perform_calculation\<close> clears the display, types the expression,
  presses the evaluate key, reads the result, clears again and returns the success
  dictionary. The call of the unbound \<^verbatim>\<open>get_run_logger\<close> comes first: on \<^verbatim>\<open>"1+1"\<close>, in a
  world where no external call fails, the task body raises \<^verbatim>\<open>NameError\<close> and has pressed
  no key.
\<close>

theorem perform_calculation_raises_before_first_step:
  "perform_calculation (working_world ''2'') ''1+1'' [] =
     (Inl (NameError ''get_run_logger''), [])"
  by (simp add: perform_calculation_def bind_io_def io_of_def lookup_get_run_logger)

text \<open>
  Claim C4: the results list the flow returns has one entry for each input expression,
  and the entry at each position carries the expression at that position. The list that
  the loop over the futures builds is of this kind for every input, but the flow does not
  return it: on \<^verbatim>\<open>["1+1", "2*3"]\<close> the \<^verbatim>\<open>return\<close> statement raises.
\<close>

theorem collected_results_never_returned:
  "map (\<lambda>d. map_of d ''expression'')
     (collect_results (fst (perform_calculation_map env calculations s)) []) =
     map Some calculations \<and>
   length (collect_results (fst (perform_calculation_map env calculations s)) []) =
     length calculations \<and>
   fst (calculator_automation_stream (working_world ''2'') [''1+1'', ''2*3''] []) =
     Inl (NameError ''total_count'')"
  by (simp add: perform_calculation_map_fails collect_results_failed comp_def
      flow_eq open_calculator_eq close_calculator_eq working_world_simps)

text \<open>
  Claim C5: a Calculation Task whose body raises on every attempt is retried exactly three
  times, with a wait of five seconds before each retry, and then reported as failed. The
  body is any computation that raises from every trace and takes no part in the retry
  protocol itself.
\<close>

theorem task_retried_three_times:
  assumes "\<forall>s. \<exists>e t. body s = (Inl e, s @ t) \<and> retry_events t = []"
  shows "\<exists>e t. run_with_retries task_name task_retries task_retry_delay_seconds body s =
                 (Inl e, s @ t) \<and>
               retry_events t =
                 [TaskAttempt task_name, RetryWait 5, TaskAttempt task_name, RetryWait 5,
                  TaskAttempt task_name, RetryWait 5, TaskAttempt task_name]"
  using run_with_retries_exhausted [OF assms, of task_name task_retries task_retry_delay_seconds s]
  by (simp add: task_retries_def task_retry_delay_seconds_def numeral_3_eq_3)

text \<open>The theorem at the task body of the source, on \<^verbatim>\<open>"1+1"\<close>.\<close>

theorem task_retried_three_times_witness:
  "\<exists>e t. perform_calculation_task (working_world ''2'') ''1+1'' [] = (Inl e, t) \<and>
         retry_events t =
           [TaskAttempt task_name, RetryWait 5, TaskAttempt task_name, RetryWait 5,
            TaskAttempt task_name, RetryWait 5, TaskAttempt task_name]"
  using task_retried_three_times [of "perform_calculation (working_world ''2'') ''1+1''" "[]"]
  by (simp add: perform_calculation_unresolved retry_events_def perform_calculation_task_def)

text \<open>
  Claim C6: for an expression of digits and the operators \<^verbatim>\<open>+ - * /\<close> only, the Input
  Driver presses exactly one key for each character, in the order of the characters. The
  key presses themselves are taken not to raise.
\<close>

theorem input_driver_one_key_per_character:
  assumes "\<forall>c \<in> set expression. isdigit c \<or> c \<in> set ''+-*/''"
    and "\<forall>key t. press_fails env key t = None"
  shows "\<exists>t. input_driver env expression s = (Inr (), s @ t) \<and>
             keys_pressed t = map (\<lambda>c. [c]) expression"
proof -
  from assms(2) have "fst (input_driver env expression s) = Inr ()"
    by (rule input_driver_completes)
  then have run: "input_driver env expression s = (Inr (), snd (input_driver env expression s))"
    by (metis prod.collapse)
  from assms(1) have "filter accepted expression = expression"
    by (simp add: accepted_def)
  with input_driver_returns [OF run] run show ?thesis
    by auto
qed

theorem input_driver_one_key_per_character_witness:
  "\<exists>t. input_driver (working_world ''40'') ''15+25'' [] = (Inr (), t) \<and>
       keys_pressed t = [''1'', ''5'', ''+'', ''2'', ''5'']"
  using input_driver_one_key_per_character [of "''15+25''" "working_world ''40''" "[]"]
  by (simp add: isdigit_def working_world_simps)

text \<open>
  Claim C7: a character that is neither a digit nor one of \<^verbatim>\<open>+ - * /\<close> produces no key
  event, raises no error and does not stop the processing of the characters after it: the
  driver only waits its tenth of a second and goes on with the rest.
\<close>

theorem unknown_character_skipped:
  assumes "\<not> isdigit c" and "c \<notin> set ''+-*/''"
  shows "press_char env c s = (Inr (), s) \<and>
         input_driver env (before @ c # after) s =
           (case input_driver env before s of
              (Inl e, s1) \<Rightarrow> (Inl e, s1)
            | (Inr u, s1) \<Rightarrow> input_driver env after (s1 @ [Sleep 100]))"
proof -
  from assms have "\<not> accepted c"
    by (simp add: accepted_def)
  then have skip: "press_char env c s1 = (Inr (), s1)" for s1
    by (simp add: press_char_eq)
  then show ?thesis
    by (simp add: input_driver_append split: prod.split sum.split)
qed

theorem unknown_character_skipped_witness:
  "press_char (working_world ''3'') (CHR ''a'') [] = (Inr (), []) \<and>
   input_driver (working_world ''3'') ''1a+2'' [] =
     (Inr (), [Press ''1'', Sleep 100, Sleep 100, Press ''+'', Sleep 100, Press ''2'', Sleep 100])"
  using unknown_character_skipped [of "CHR ''a''" "working_world ''3''" "[]" "''1''" "''+2''"]
  by (simp add: isdigit_def press_char_eq accepted_def working_world_simps)

text \<open>
  Claim C8: the Result Reader returns the clipboard text with the surrounding whitespace
  removed and the commas removed; without \<^verbatim>\<open>pyperclip\<close> it returns the text
  \<^verbatim>\<open>Result_Read_Error\<close> and raises nothing. The copy shortcut is taken not to raise.
\<close>

theorem result_reader_contract:
  assumes "hotkey_fails env [''command'', ''c''] s = None"
  shows "(pyperclip_installed env \<longrightarrow>
            (\<forall>text. clipboard env (s @ copy_events) = Inr text \<longrightarrow>
               result_reader env s =
                 (Inr (remove_commas (strip text)), s @ copy_events @ [Paste]))) \<and>
         (\<not> pyperclip_installed env \<longrightarrow>
            result_reader env s =
              (Inr ''Result_Read_Error'',
               s @ copy_events @ [Print ''Install 'pyperclip' to read the clipboard result.'']))"
  using assms
  by (simp add: result_reader_def read_clipboard_def bind_io_def external_def emit_def
      try_except_def return_io_def raise_io_def copy_events_def)

theorem result_reader_contract_witness:
  "result_reader (working_world ''  1,234,567.5  '') [] =
     (Inr ''1234567.5'', [Hotkey [''command'', ''c''], Sleep 500, Paste]) \<and>
   result_reader no_pyperclip_world [] =
     (Inr ''Result_Read_Error'',
      [Hotkey [''command'', ''c''], Sleep 500,
       Print ''Install 'pyperclip' to read the clipboard result.''])"
  using result_reader_contract [of "working_world ''  1,234,567.5  ''" "[]"]
    result_reader_contract [of no_pyperclip_world "[]"]
  by (simp add: working_world_simps no_pyperclip_world_def working_world_def copy_events_def
      remove_commas_def strip_def isspace_def)

text \<open>
  Claim C9: an exception of \<^verbatim>\<open>close_calculator\<close> during the cleanup of the flow is
  swallowed and does not replace the error the caller observes. The handler of the outer
  \<^verbatim>\<open>try\<close> swallows it; the \<^verbatim>\<open>finally\<close> block does not: on the empty list, in a world where
  quitting the Calculator fails, the flow raises the error of \<^verbatim>\<open>close_calculator\<close> in
  place of the \<^verbatim>\<open>NameError\<close> that the handler had re-raised.
\<close>

theorem close_failure_in_finally_propagates:
  "fst (calculator_automation_stream (osascript_failing_world [quit_script]) [] []) =
     Inl (CalledProcessError ''osascript returned non-zero exit status 1'') \<and>
   fst (except_handler (osascript_failing_world [quit_script]) (NameError ''total_count'') []) =
     Inl (NameError ''total_count'')"
  by (simp add: flow_eq open_calculator_eq close_calculator_eq osascript_failing_world_simps
      except_handler_eq activate_script_def quit_script_def)

text \<open>
  Claim C10: no call of the flow returns a value. Every attempt of the task raises at its
  first statement, since \<^verbatim>\<open>get_run_logger\<close> is unbound, and changes nothing; the \<^verbatim>\<open>return\<close>
  statement raises whatever the results are, since \<^verbatim>\<open>total_count\<close> is unbound; so every
  flow run ends by raising.
\<close>

theorem flow_never_returns:
  "perform_calculation env expression s = (Inl (NameError ''get_run_logger''), s) \<and>
   return_statement rs = Inl (NameError ''total_count'') \<and>
   (\<exists>e. fst (calculator_automation_stream env calculations s) = Inl e)"
  by (simp add: perform_calculation_unresolved return_statement_raises flow_eq
      split: prod.split sum.split)

end
